theory Spec2Isabelle
  imports Main "HOL-Library.List_Lexorder" "HOL-Library.Char_ord"
begin

section \<open>Configuration constants (app/config.py)\<close>

definition USER_ROLE :: string where "USER_ROLE = ''USER''"
definition DRIVER_ROLE :: string where "DRIVER_ROLE = ''DRIVER''"
definition ADMIN_ROLE :: string where "ADMIN_ROLE = ''ADMIN''"

definition BUS_STATUS_ACTIVE :: string where "BUS_STATUS_ACTIVE = ''ACTIVE''"
definition BUS_STATUS_MAINTENANCE :: string where "BUS_STATUS_MAINTENANCE = ''MAINTENANCE''"
definition BUS_STATUS_DECOMMISSIONED :: string where
  "BUS_STATUS_DECOMMISSIONED = ''DECOMMISSIONED''"

definition BOOKING_STATUS_CONFIRMED :: string where "BOOKING_STATUS_CONFIRMED = ''CONFIRMED''"
definition BOOKING_STATUS_CANCELLED :: string where "BOOKING_STATUS_CANCELLED = ''CANCELLED''"

definition MAX_SEATS_PER_BOOKING :: nat where "MAX_SEATS_PER_BOOKING = 5"

definition SEAT_ROWS :: "string list" where
  "SEAT_ROWS = [''A'', ''B'', ''C'', ''D'', ''E'', ''F'', ''G'', ''H'', ''I'', ''J'']"
definition LAST_ROW :: string where "LAST_ROW = ''K''"
definition SEATS_PER_ROW :: nat where "SEATS_PER_ROW = 4"
definition LAST_ROW_SEATS :: nat where "LAST_ROW_SEATS = 5"

section \<open>Python string helpers\<close>

text \<open>\<open>str(n)\<close> for a non-negative integer: its decimal digits.\<close>

definition digits :: string where "digits = ''0123456789''"

function str :: "nat \<Rightarrow> string" where
  "str n = (if n < 10 then [digits ! n] else str (n div 10) @ [digits ! (n mod 10)])"
  by pat_completeness auto
termination
  by (relation "measure (\<lambda>n. n)") auto

declare str.simps [simp del]

text \<open>\<open>s.split('T')[0]\<close>: the part of \<open>s\<close> before its first \<open>T\<close> (all of \<open>s\<close>
  when it has none).\<close>

definition split_T_0 :: "string \<Rightarrow> string" where
  "split_T_0 s = takeWhile (\<lambda>c. c \<noteq> CHR ''T'') s"

text \<open>\<open>s.lower()\<close> on the ASCII letters.\<close>

definition lower_char :: "char \<Rightarrow> char" where
  "lower_char c =
     (case map_of (zip ''ABCDEFGHIJKLMNOPQRSTUVWXYZ'' ''abcdefghijklmnopqrstuvwxyz'') c of
        Some l \<Rightarrow> l
      | None \<Rightarrow> c)"

definition lower :: "string \<Rightarrow> string" where
  "lower s = map lower_char s"

text \<open>\<open>needle in haystack\<close> on strings: \<open>needle\<close> occurs as a contiguous slice.\<close>

fun contains :: "string \<Rightarrow> string \<Rightarrow> bool" where
  "contains [] needle = (needle = [])"
| "contains (c # cs) needle =
     (take (length needle) (c # cs) = needle \<or> contains cs needle)"

text \<open>\<open>xs.index(x)\<close>: the position of the first occurrence; \<open>None\<close> stands for the
  \<open>ValueError\<close> Python raises when \<open>x\<close> does not occur.\<close>

fun index :: "'a list \<Rightarrow> 'a \<Rightarrow> nat option" where
  "index [] x = None"
| "index (y # ys) x = (if y = x then Some 0 else map_option Suc (index ys x))"

section \<open>Data model\<close>

text \<open>A row of table \<open>bookings\<close>, the dictionary the service passes around. The
  application writes every key but \<open>id\<close>, which the store assigns on insertion.\<close>

record booking_data =
  row_user_id :: string
  row_bus_id :: string
  row_seat_number :: string
  row_source :: string
  row_destination :: string
  row_date :: string
  row_price :: int
  row_status :: string

record booking_row = booking_data +
  row_id :: nat

text \<open>Class \<open>Booking\<close> (app/models/booking.py).\<close>

record Booking =
  Booking_id :: nat
  Booking_user_id :: string
  Booking_bus_id :: string
  Booking_seat_number :: string
  Booking_source :: string
  Booking_destination :: string
  Booking_booking_date :: string
  Booking_price :: int
  Booking_status :: string

definition Booking_from_dict :: "booking_row \<Rightarrow> Booking" where
  "Booking_from_dict data =
     \<lparr>Booking_id = row_id data,
      Booking_user_id = row_user_id data,
      Booking_bus_id = row_bus_id data,
      Booking_seat_number = row_seat_number data,
      Booking_source = row_source data,
      Booking_destination = row_destination data,
      Booking_booking_date = row_date data,
      Booking_price = row_price data,
      Booking_status = row_status data\<rparr>"

definition isConfirmed :: "Booking \<Rightarrow> bool" where
  "isConfirmed b = (Booking_status b = BOOKING_STATUS_CONFIRMED)"

text \<open>Class \<open>Bus\<close> (app/models/bus.py). A row of table \<open>buses\<close> carries every column,
  so \<open>Bus.from_dict\<close> copies it field for field and the table is kept as a list of
  \<open>Bus\<close> values.\<close>

record Bus =
  Bus_id :: string
  Bus_name :: string
  Bus_route :: "string list"
  Bus_total_seats :: nat
  Bus_driver_id :: "string option"
  Bus_price :: int
  Bus_status :: string

definition isActive :: "Bus \<Rightarrow> bool" where
  "isActive bus = (Bus_status bus = BUS_STATUS_ACTIVE)"

definition is_valid_trip :: "Bus \<Rightarrow> string \<Rightarrow> string \<Rightarrow> bool" where
  "is_valid_trip bus source destination =
     (if source \<notin> set (Bus_route bus) \<or> destination \<notin> set (Bus_route bus) then False
      else
        (case (index (Bus_route bus) source, index (Bus_route bus) destination) of
           (Some source_index, Some destination_index) \<Rightarrow> source_index < destination_index
         | _ \<Rightarrow> False))"

text \<open>Class \<open>User\<close> (app/models/user.py); a row of table \<open>profiles\<close> likewise.\<close>

record User =
  User_id :: string
  User_email :: string
  User_name :: string
  User_role :: string

section \<open>The backing store\<close>

text \<open>
  The hosted database is an external collaborator; the application sees it only through
  the query builder. The store is modelled as its tables: \<open>bookings\<close> in insertion order
  (which is also the order of \<open>created_at\<close>), \<open>buses\<close> and \<open>profiles\<close>. \<open>next_id\<close> is the
  identifier the store gives the next inserted booking. \<open>fault\<close> is \<open>Some msg\<close> when every
  request to the store raises an exception with text \<open>msg\<close>. \<open>single_error n\<close> is the text
  of the exception the client library raises when a query that asks for a single row
  matches \<open>n\<close> rows, \<open>n\<close> other than one; the library decides it, so it is left open.

  The filters \<open>eq\<close>, \<open>gte\<close> and \<open>lt\<close> of the query builder are equality and the order of
  the column's values; dates are ISO-8601 strings, compared as strings (for timestamps of
  one format this is also their order in time).
\<close>

record world =
  bookings :: "booking_row list"
  buses :: "Bus list"
  profiles :: "User list"
  next_id :: nat
  fault :: "string option"
  single_error :: "nat \<Rightarrow> string"

text \<open>\<open>table('bookings').insert(booking_data).execute()\<close>: the new row gets a fresh
  identifier, is appended, and is returned as \<open>response.data\<close>.\<close>

definition insert_booking :: "world \<Rightarrow> booking_data \<Rightarrow> booking_row list \<times> world" where
  "insert_booking w booking_data =
     (let new_row =
        \<lparr>row_user_id = row_user_id booking_data,
         row_bus_id = row_bus_id booking_data,
         row_seat_number = row_seat_number booking_data,
         row_source = row_source booking_data,
         row_destination = row_destination booking_data,
         row_date = row_date booking_data,
         row_price = row_price booking_data,
         row_status = row_status booking_data,
         row_id = next_id w\<rparr>
      in ([new_row], w\<lparr>bookings := bookings w @ [new_row], next_id := Suc (next_id w)\<rparr>))"

section \<open>SupabaseService (app/services/supabase_service.py)\<close>

text \<open>The service raises one exception class per method: \<open>Inl msg\<close> stands for
  \<open>raise BookingError(msg)\<close> in \<open>create_booking\<close> and for
  \<open>raise AuthenticationError(msg)\<close> in \<open>login\<close>.\<close>

definition get_bookings_by_user :: "world \<Rightarrow> string \<Rightarrow> booking_row list" where
  "get_bookings_by_user w user_id =
     (case fault w of
        Some msg \<Rightarrow> []
      | None \<Rightarrow> rev (filter (\<lambda>r. row_user_id r = user_id) (bookings w)))"

definition get_bus_bookings_for_date :: "world \<Rightarrow> string \<Rightarrow> string \<Rightarrow> booking_row list" where
  "get_bus_bookings_for_date w bus_id date_str =
     (case fault w of
        Some msg \<Rightarrow> []
      | None \<Rightarrow>
          (let date_prefix = split_T_0 date_str
           in filter (\<lambda>r. row_bus_id r = bus_id \<and> row_status r = ''CONFIRMED'' \<and>
                           date_prefix \<le> row_date r \<and>
                           row_date r < date_prefix @ ''T23:59:59'')
                (bookings w)))"

definition service_create_booking ::
  "world \<Rightarrow> booking_data \<Rightarrow> (string + booking_row option) \<times> world" where
  "service_create_booking w booking_data =
     (case fault w of
        Some msg \<Rightarrow> (Inl (''Failed to create booking: '' @ msg), w)
      | None \<Rightarrow>
          (let date_prefix = split_T_0 (row_date booking_data);
               existing =
                 filter (\<lambda>r. row_bus_id r = row_bus_id booking_data \<and>
                              row_seat_number r = row_seat_number booking_data \<and>
                              row_status r = ''CONFIRMED'' \<and>
                              date_prefix \<le> row_date r \<and>
                              row_date r < date_prefix @ ''T23:59:59'')
                   (bookings w)
           in if existing \<noteq> [] then
                (Inl (''Seat '' @ row_seat_number booking_data @ '' is already booked.''), w)
              else
                (case insert_booking w booking_data of
                   ([], w') \<Rightarrow> (Inr None, w')
                 | (created # rest, w') \<Rightarrow> (Inr (Some created), w'))))"

definition service_cancel_booking :: "world \<Rightarrow> nat \<Rightarrow> bool \<times> world" where
  "service_cancel_booking w booking_id =
     (case fault w of
        Some msg \<Rightarrow> (False, w)
      | None \<Rightarrow>
          (True, w\<lparr>bookings :=
             map (\<lambda>r. if row_id r = booking_id then r\<lparr>row_status := ''CANCELLED''\<rparr> else r)
               (bookings w)\<rparr>))"

definition service_delete_booking :: "world \<Rightarrow> nat \<Rightarrow> bool \<times> world" where
  "service_delete_booking w booking_id =
     (case fault w of
        Some msg \<Rightarrow> (False, w)
      | None \<Rightarrow> (True, w\<lparr>bookings := filter (\<lambda>r. row_id r \<noteq> booking_id) (bookings w)\<rparr>))"

definition get_all_buses :: "world \<Rightarrow> Bus list" where
  "get_all_buses w = (case fault w of Some msg \<Rightarrow> [] | None \<Rightarrow> buses w)"

text \<open>\<open>SupabaseService.login\<close>. The identity provider is a parameter: \<open>sign_in email
  password\<close> is what \<open>auth.sign_in_with_password\<close> does, raising with a message or
  answering with \<open>response.user.id\<close> (or no user). \<open>.single()\<close> raises unless exactly one
  row matches, and the handler passes \<open>str(e)\<close> of that exception on.\<close>

datatype sign_in_response = SignInRaises string | SignInUser "string option"

definition login_error :: "string \<Rightarrow> string" where
  "login_error error_msg =
     (if contains error_msg ''Invalid login credentials''
      then ''Invalid email or password.''
      else error_msg)"

definition service_login ::
  "(string \<Rightarrow> string \<Rightarrow> sign_in_response) \<Rightarrow> world \<Rightarrow> string \<Rightarrow> string \<Rightarrow> string + User option"
  where
  "service_login sign_in w email password =
     (case sign_in email password of
        SignInRaises error_msg \<Rightarrow> Inl (login_error error_msg)
      | SignInUser None \<Rightarrow> Inr None
      | SignInUser (Some uid) \<Rightarrow>
          (case fault w of
             Some msg \<Rightarrow> Inl (login_error msg)
           | None \<Rightarrow>
               (case filter (\<lambda>p. User_id p = uid) (profiles w) of
                  [profile] \<Rightarrow> Inr (Some profile)
                | matched \<Rightarrow> Inl (login_error (single_error w (length matched))))))"

section \<open>BookingController (app/controllers/booking_controller.py)\<close>

text \<open>\<open>datetime.now().isoformat()\<close> is an input of the model: \<open>now\<close> is the reading of
  the clock during the call.\<close>

definition get_user_bookings :: "world \<Rightarrow> string \<Rightarrow> Booking list" where
  "get_user_bookings w user_id = map Booking_from_dict (get_bookings_by_user w user_id)"

definition get_confirmed_bookings :: "world \<Rightarrow> string \<Rightarrow> Booking list" where
  "get_confirmed_bookings w user_id = filter isConfirmed (get_user_bookings w user_id)"

definition get_occupied_seats :: "string \<Rightarrow> world \<Rightarrow> string \<Rightarrow> string option \<Rightarrow> string list" where
  "get_occupied_seats now w bus_id date_str =
     (let date_str' = (case date_str of None \<Rightarrow> now | Some s \<Rightarrow> if s = [] then now else s)
      in map row_seat_number (get_bus_bookings_for_date w bus_id date_str'))"

text \<open>An entry of the seat layout.\<close>

record seat =
  number :: string
  row :: string
  position :: nat
  isOccupied :: bool
  isLastRow :: bool

definition get_seat_layout :: "string \<Rightarrow> world \<Rightarrow> string \<Rightarrow> string option \<Rightarrow> seat list" where
  "get_seat_layout now w bus_id date_str =
     (let occupied_seats = get_occupied_seats now w bus_id date_str
      in concat
           (map (\<lambda>r.
              map (\<lambda>seat_num.
                \<lparr>number = r @ str seat_num,
                 row = r,
                 position = seat_num,
                 isOccupied = (r @ str seat_num \<in> set occupied_seats),
                 isLastRow = False\<rparr>)
                [1 ..< SEATS_PER_ROW + 1])
              SEAT_ROWS)
         @ map (\<lambda>seat_num.
              \<lparr>number = LAST_ROW @ str seat_num,
               row = LAST_ROW,
               position = seat_num,
               isOccupied = (LAST_ROW @ str seat_num \<in> set occupied_seats),
               isLastRow = True\<rparr>)
             [1 ..< LAST_ROW_SEATS + 1])"

text \<open>\<open>BookingController.create_booking\<close> returns the pair (booking or \<open>None\<close>, error
  message or \<open>None\<close>); the model returns the store after the call as well.\<close>

definition create_booking ::
  "string \<Rightarrow> world \<Rightarrow> string \<Rightarrow> string \<Rightarrow> string \<Rightarrow> string \<Rightarrow> string \<Rightarrow> int
     \<Rightarrow> (Booking option \<times> string option) \<times> world" where
  "create_booking now w user_id bus_id seat_number source destination price =
     (let booking_data =
        \<lparr>row_user_id = user_id,
         row_bus_id = bus_id,
         row_seat_number = seat_number,
         row_source = source,
         row_destination = destination,
         row_date = now,
         row_price = price,
         row_status = BOOKING_STATUS_CONFIRMED\<rparr>
      in case service_create_booking w booking_data of
           (Inr (Some created_data), w') \<Rightarrow> ((Some (Booking_from_dict created_data), None), w')
         | (Inr None, w') \<Rightarrow> ((None, Some ''Failed to create booking.''), w')
         | (Inl e, w') \<Rightarrow> ((None, Some e), w'))"

text \<open>The loop of \<open>create_multiple_bookings\<close>: \<open>clock i\<close> is the reading of the clock
  when the seat at position \<open>i\<close> of the batch is attempted.\<close>

fun book_each ::
  "(nat \<Rightarrow> string) \<Rightarrow> nat \<Rightarrow> world \<Rightarrow> string \<Rightarrow> string \<Rightarrow> string list \<Rightarrow> string \<Rightarrow> string \<Rightarrow> int
     \<Rightarrow> Booking list \<Rightarrow> string list \<Rightarrow> (Booking list \<times> string list) \<times> world" where
  "book_each clock i w user_id bus_id [] source destination price_per_seat
       successful_bookings errors = ((successful_bookings, errors), w)"
| "book_each clock i w user_id bus_id (seat_number # rest) source destination price_per_seat
       successful_bookings errors =
     (case create_booking (clock i) w user_id bus_id seat_number source destination
             price_per_seat of
        ((Some booking, error), w') \<Rightarrow>
          book_each clock (Suc i) w' user_id bus_id rest source destination price_per_seat
            (successful_bookings @ [booking]) errors
      | ((None, error), w') \<Rightarrow>
          book_each clock (Suc i) w' user_id bus_id rest source destination price_per_seat
            successful_bookings
            (errors @ [''Seat '' @ seat_number @ '': '' @
                       (case error of None \<Rightarrow> ''None'' | Some e \<Rightarrow> e)]))"

definition create_multiple_bookings ::
  "(nat \<Rightarrow> string) \<Rightarrow> world \<Rightarrow> string \<Rightarrow> string \<Rightarrow> string list \<Rightarrow> string \<Rightarrow> string \<Rightarrow> int
     \<Rightarrow> (Booking list \<times> string list) \<times> world" where
  "create_multiple_bookings clock w user_id bus_id seat_numbers source destination
       price_per_seat =
     (if length seat_numbers > MAX_SEATS_PER_BOOKING then
        (([], [''Cannot book more than '' @ str MAX_SEATS_PER_BOOKING @ '' seats at once.'']), w)
      else
        book_each clock 0 w user_id bus_id seat_numbers source destination price_per_seat
          [] [])"

definition cancel_booking :: "world \<Rightarrow> nat \<Rightarrow> string \<Rightarrow> (bool \<times> string option) \<times> world" where
  "cancel_booking w booking_id user_id =
     (let user_bookings = get_user_bookings w user_id;
          booking_ids = map Booking_id user_bookings
      in if booking_id \<notin> set booking_ids then
           ((False, Some ''Booking not found or access denied.''), w)
         else
           (case service_cancel_booking w booking_id of
              (True, w') \<Rightarrow> ((True, None), w')
            | (False, w') \<Rightarrow> ((False, Some ''Failed to cancel booking.''), w')))"

definition delete_booking :: "world \<Rightarrow> nat \<Rightarrow> string \<Rightarrow> (bool \<times> string option) \<times> world" where
  "delete_booking w booking_id user_id =
     (let user_bookings = get_user_bookings w user_id;
          booking_ids = map Booking_id user_bookings
      in if booking_id \<notin> set booking_ids then
           ((False, Some ''Booking not found or access denied.''), w)
         else
           (case service_delete_booking w booking_id of
              (True, w') \<Rightarrow> ((True, None), w')
            | (False, w') \<Rightarrow> ((False, Some ''Failed to delete booking.''), w')))"

section \<open>BusController (app/controllers/bus_controller.py)\<close>

definition get_active_buses :: "world \<Rightarrow> Bus list" where
  "get_active_buses w = filter isActive (get_all_buses w)"

definition search_buses :: "world \<Rightarrow> string \<Rightarrow> string \<Rightarrow> Bus list" where
  "search_buses w source destination =
     filter (\<lambda>bus. is_valid_trip bus source destination) (get_active_buses w)"

section \<open>AuthController (app/controllers/auth_controller.py)\<close>

definition get_expected_role :: "string \<Rightarrow> string option" where
  "get_expected_role portal_type =
     map_of [(''user'', USER_ROLE), (''driver'', DRIVER_ROLE), (''admin'', ADMIN_ROLE)]
       (lower portal_type)"

text \<open>\<open>AuthController.login\<close> returns the pair (user or \<open>None\<close>, error message or
  \<open>None\<close>). A string is falsy when empty, so is \<open>expected_role\<close> in the guard. The
  service raises \<open>AuthenticationError\<close> only, so the handler of any other exception
  has no case here.\<close>

definition login ::
  "(string \<Rightarrow> string \<Rightarrow> sign_in_response) \<Rightarrow> world \<Rightarrow> string \<Rightarrow> string \<Rightarrow> string
     \<Rightarrow> User option \<times> string option" where
  "login sign_in w email password portal_type =
     (case service_login sign_in w email password of
        Inl e \<Rightarrow> (None, Some e)
      | Inr None \<Rightarrow> (None, Some ''Invalid email or password.'')
      | Inr (Some user) \<Rightarrow>
          (case get_expected_role portal_type of
             None \<Rightarrow> (Some user, None)
           | Some expected_role \<Rightarrow>
               if expected_role \<noteq> [] \<and> User_role user \<noteq> expected_role then
                 (None, Some (''Access denied. This portal is for '' @ portal_type @ ''s only.''))
               else (Some user, None)))"

section \<open>The specification's notions\<close>

text \<open>
  The booking invariant of the specification: no two CONFIRMED bookings share bus, seat
  label and calendar day. The calendar day of a booking is the day prefix of its date.
\<close>

definition confirmed_slots :: "world \<Rightarrow> (string \<times> string \<times> string) list" where
  "confirmed_slots w =
     map (\<lambda>r. (row_bus_id r, row_seat_number r, split_T_0 (row_date r)))
       (filter (\<lambda>r. row_status r = BOOKING_STATUS_CONFIRMED) (bookings w))"

definition no_double_booking :: "world \<Rightarrow> bool" where
  "no_double_booking w = distinct (confirmed_slots w)"

text \<open>
  The occupancy query as the specification words it: the seat labels of the CONFIRMED
  bookings of the bus whose date has the calendar day of \<open>date_str\<close>.
\<close>

definition occupied_seats_by_day :: "world \<Rightarrow> string \<Rightarrow> string \<Rightarrow> string list" where
  "occupied_seats_by_day w bus_id date_str =
     map row_seat_number
       (filter (\<lambda>r. row_bus_id r = bus_id \<and> row_status r = BOOKING_STATUS_CONFIRMED \<and>
                     split_T_0 (row_date r) = split_T_0 date_str)
          (bookings w))"

text \<open>
  A date written as a ten-character day, \<open>T\<close>, and a time of day that precedes
  \<open>23:59:59\<close>; \<open>time_of_day\<close> is what follows the first \<open>T\<close>. A ledger is settled when
  every CONFIRMED booking has such a date.
\<close>

definition time_of_day :: "string \<Rightarrow> string" where
  "time_of_day d = drop (Suc (length (split_T_0 d))) d"

definition before_last_second :: "string \<Rightarrow> bool" where
  "before_last_second d =
     (length (split_T_0 d) = 10 \<and> d = split_T_0 d @ CHR ''T'' # time_of_day d \<and>
      time_of_day d < ''23:59:59'')"

definition settled_ledger :: "world \<Rightarrow> bool" where
  "settled_ledger w =
     list_all (\<lambda>r. row_status r \<noteq> BOOKING_STATUS_CONFIRMED \<or> before_last_second (row_date r))
       (bookings w)"

text \<open>
  Requests served one after the other: a booking (with the reading of the clock during
  the call), a cancellation, a deletion. A booking request is timely when its clock
  reading precedes the last second of its day.
\<close>

datatype request =
    Create string string string string string string int
  | Cancel nat string
  | Delete nat string

fun serve :: "world \<Rightarrow> request \<Rightarrow> world" where
  "serve w (Create now user_id bus_id seat_number source destination price) =
     snd (create_booking now w user_id bus_id seat_number source destination price)"
| "serve w (Cancel booking_id user_id) = snd (cancel_booking w booking_id user_id)"
| "serve w (Delete booking_id user_id) = snd (delete_booking w booking_id user_id)"

fun timely :: "request \<Rightarrow> bool" where
  "timely (Create now user_id bus_id seat_number source destination price) =
     before_last_second now"
| "timely (Cancel booking_id user_id) = True"
| "timely (Delete booking_id user_id) = True"

section \<open>Example data\<close>

definition empty_store :: world where
  "empty_store =
     \<lparr>bookings = [], buses = [], profiles = [], next_id = 0, fault = None,
      single_error = (\<lambda>n. ''PGRST116: the result contains '' @ str n @ '' rows'')\<rparr>"

definition red_express :: Bus where
  "red_express =
     \<lparr>Bus_id = ''bus-1'', Bus_name = ''Red Express 01'',
      Bus_route = [''Uttara'', ''Banani'', ''Farmgate''], Bus_total_seats = 40,
      Bus_driver_id = None, Bus_price = 50, Bus_status = BUS_STATUS_ACTIVE\<rparr>"

definition fleet_store :: world where
  "fleet_store = empty_store\<lparr>buses := [red_express]\<rparr>"

definition workshop_store :: world where
  "workshop_store = empty_store\<lparr>buses := [red_express\<lparr>Bus_status := BUS_STATUS_MAINTENANCE\<rparr>]\<rparr>"

definition driver_dana :: User where
  "driver_dana =
     \<lparr>User_id = ''d1'', User_email = ''dana@example.com'', User_name = ''Dana Driver'',
      User_role = DRIVER_ROLE\<rparr>"

definition staff_store :: world where
  "staff_store = empty_store\<lparr>profiles := [driver_dana]\<rparr>"

definition accepts_dana :: "string \<Rightarrow> string \<Rightarrow> sign_in_response" where
  "accepts_dana email password = SignInUser (Some ''d1'')"

text \<open>Two readings of the clock within the last second of 15 December 2024.\<close>

definition last_second_clock :: "nat \<Rightarrow> string" where
  "last_second_clock i =
     (if i = 0 then ''2024-12-15T23:59:59.100000'' else ''2024-12-15T23:59:59.600000'')"

section \<open>Properties\<close>

subsection \<open>Auxiliary facts\<close>

lemmas booking_eval =
  create_booking_def service_create_booking_def insert_booking_def split_T_0_def
  Booking_from_dict_def BOOKING_STATUS_CONFIRMED_def Let_def empty_store_def

lemma index_Some_iff:
  "index xs x = Some i \<longleftrightarrow> (i < length xs \<and> xs ! i = x \<and> x \<notin> set (take i xs))"
proof (induction xs arbitrary: i)
  case Nil
  then show ?case by simp
next
  case (Cons y ys)
  show ?case
  proof (cases "y = x")
    case True
    then show ?thesis by (cases i) auto
  next
    case False
    then show ?thesis using Cons by (cases i) auto
  qed
qed

lemma index_None_iff: "index xs x = None \<longleftrightarrow> x \<notin> set xs"
  by (induction xs) auto

lemma service_create_booking_success:
  "service_create_booking w d = (Inr (Some r), w') \<Longrightarrow>
     fault w = None \<and>
     r = \<lparr>row_user_id = row_user_id d, row_bus_id = row_bus_id d,
          row_seat_number = row_seat_number d, row_source = row_source d,
          row_destination = row_destination d, row_date = row_date d,
          row_price = row_price d, row_status = row_status d, row_id = next_id w\<rparr> \<and>
     w' = w\<lparr>bookings := bookings w @ [r], next_id := Suc (next_id w)\<rparr>"
  by (auto simp: service_create_booking_def insert_booking_def Let_def
           split: option.splits if_splits)

lemma not_owner_not_listed:
  "\<forall>r \<in> set (bookings w). row_id r = booking_id \<longrightarrow> row_user_id r \<noteq> user_id \<Longrightarrow>
   booking_id \<notin> set (map Booking_id (get_user_bookings w user_id))"
  by (auto simp: get_user_bookings_def get_bookings_by_user_def Booking_from_dict_def
           split: option.splits)

subsection \<open>Trip validation\<close>

text \<open>
  C2, as stated, fails: \<open>create_booking\<close> never looks at the route. On the bus with route
  Uttara, Banani, Farmgate the trip from Farmgate to Uttara is not a valid trip, and the
  request to book it is admitted and stored.
\<close>

theorem reversed_trip_is_booked:
  "\<not> is_valid_trip red_express ''Farmgate'' ''Uttara'' \<and>
   create_booking ''2024-12-15T10:00:00'' fleet_store ''u1'' ''bus-1'' ''A1''
       ''Farmgate'' ''Uttara'' 50 =
     ((Some \<lparr>Booking_id = 0, Booking_user_id = ''u1'', Booking_bus_id = ''bus-1'',
             Booking_seat_number = ''A1'', Booking_source = ''Farmgate'',
             Booking_destination = ''Uttara'',
             Booking_booking_date = ''2024-12-15T10:00:00'', Booking_price = 50,
             Booking_status = ''CONFIRMED''\<rparr>, None),
      fleet_store
        \<lparr>bookings :=
           [\<lparr>row_user_id = ''u1'', row_bus_id = ''bus-1'', row_seat_number = ''A1'',
             row_source = ''Farmgate'', row_destination = ''Uttara'',
             row_date = ''2024-12-15T10:00:00'', row_price = 50,
             row_status = ''CONFIRMED'', row_id = 0\<rparr>],
         next_id := 1\<rparr>)"
  by (simp add: booking_eval fleet_store_def red_express_def is_valid_trip_def)

text \<open>
  C2, amended: the check that source and destination both occur in the route, the first
  occurrence of the source before the first occurrence of the destination, is
  \<open>Bus.is_valid_trip\<close>. \<open>create_booking\<close> does not apply it: the error it reports, and
  whether it returns a booking, are the same for every source and destination. The search
  applies it: every bus \<open>search_buses\<close> returns makes source to destination a valid trip,
  and every active bus that does is returned.
\<close>

theorem trip_check_is_is_valid_trip:
  "(is_valid_trip bus source destination \<longleftrightarrow>
      (\<exists>i j. i < j \<and> j < length (Bus_route bus) \<and>
             Bus_route bus ! i = source \<and> Bus_route bus ! j = destination \<and>
             source \<notin> set (take i (Bus_route bus)) \<and>
             destination \<notin> set (take j (Bus_route bus)))) \<and>
   snd (fst (create_booking now w user_id bus_id seat_number source destination price)) =
     snd (fst (create_booking now w user_id bus_id seat_number source' destination' price)) \<and>
   (fst (fst (create_booking now w user_id bus_id seat_number source destination price)) = None) =
     (fst (fst (create_booking now w user_id bus_id seat_number source' destination' price)) = None) \<and>
   (\<forall>found \<in> set (search_buses w source destination).
      is_valid_trip found source destination) \<and>
   (\<forall>active \<in> set (get_active_buses w).
      is_valid_trip active source destination \<longrightarrow>
        active \<in> set (search_buses w source destination))"
proof (intro conjI)
  let ?R = "Bus_route bus"
  let ?rhs = "\<exists>i j. i < j \<and> j < length ?R \<and> ?R ! i = source \<and> ?R ! j = destination \<and>
             source \<notin> set (take i ?R) \<and> destination \<notin> set (take j ?R)"
  show "is_valid_trip bus source destination \<longleftrightarrow> ?rhs"
  proof (cases "source \<in> set ?R \<and> destination \<in> set ?R")
    case True
    then obtain i j where ij: "index ?R source = Some i" "index ?R destination = Some j"
      using index_None_iff[of ?R] by (metis not_None_eq)
    have l: "is_valid_trip bus source destination \<longleftrightarrow> i < j"
      using True ij by (simp add: is_valid_trip_def)
    show ?thesis
    proof
      assume "is_valid_trip bus source destination"
      with l ij show ?rhs
        using index_Some_iff[of ?R] by blast
    next
      assume ?rhs
      then obtain i' j' where h: "i' < j'" "j' < length ?R" "?R ! i' = source"
          "?R ! j' = destination" "source \<notin> set (take i' ?R)" "destination \<notin> set (take j' ?R)"
        by blast
      then have "index ?R source = Some i'" "index ?R destination = Some j'"
        using index_Some_iff[of ?R] by auto
      with ij h l show "is_valid_trip bus source destination" by simp
    qed
  next
    case False
    then have "\<not> is_valid_trip bus source destination"
      by (auto simp: is_valid_trip_def)
    moreover have "\<not> ?rhs"
      using False by (metis nth_mem order.strict_trans)
    ultimately show ?thesis by blast
  qed
next
  show "snd (fst (create_booking now w user_id bus_id seat_number source destination price)) =
     snd (fst (create_booking now w user_id bus_id seat_number source' destination' price))"
    by (simp add: create_booking_def service_create_booking_def insert_booking_def Let_def
          split: option.splits)
next
  show "(fst (fst (create_booking now w user_id bus_id seat_number source destination price)) = None) =
     (fst (fst (create_booking now w user_id bus_id seat_number source' destination' price)) = None)"
    by (simp add: create_booking_def service_create_booking_def insert_booking_def Let_def
          split: option.splits)
next
  show "\<forall>found \<in> set (search_buses w source destination).
          is_valid_trip found source destination"
    by (simp add: search_buses_def)
next
  show "\<forall>active \<in> set (get_active_buses w).
          is_valid_trip active source destination \<longrightarrow>
            active \<in> set (search_buses w source destination)"
    by (simp add: search_buses_def)
qed

text \<open>On the example bus: Uttara to Farmgate is valid, Farmgate to Uttara is not, and
  the booking of the latter goes through without an error; the search finds the bus from
  Uttara to Farmgate and finds nothing from Farmgate to Uttara.\<close>

theorem trip_check_is_is_valid_trip_witness:
  "is_valid_trip red_express ''Uttara'' ''Farmgate'' \<and>
   \<not> is_valid_trip red_express ''Farmgate'' ''Uttara'' \<and>
   snd (fst (create_booking ''2024-12-15T10:00:00'' fleet_store ''u1'' ''bus-1'' ''A1''
               ''Farmgate'' ''Uttara'' 50)) = None \<and>
   fst (fst (create_booking ''2024-12-15T10:00:00'' fleet_store ''u1'' ''bus-1'' ''A1''
               ''Farmgate'' ''Uttara'' 50)) \<noteq> None \<and>
   get_active_buses fleet_store = [red_express] \<and>
   search_buses fleet_store ''Uttara'' ''Farmgate'' = [red_express] \<and>
   search_buses fleet_store ''Farmgate'' ''Uttara'' = []"
  using trip_check_is_is_valid_trip
    [of red_express "''Uttara''" "''Farmgate''" "''2024-12-15T10:00:00''" fleet_store "''u1''"
        "''bus-1''" "''A1''" 50 "''Farmgate''" "''Uttara''"]
  by (simp add: booking_eval fleet_store_def red_express_def is_valid_trip_def
        search_buses_def get_active_buses_def get_all_buses_def isActive_def
        BUS_STATUS_ACTIVE_def)

subsection \<open>What a successful booking records\<close>

text \<open>
  C3, as stated, fails: \<open>create_booking\<close> takes no date. The same request made at two
  readings of the clock records two different journey dates, so the recorded date is not
  a value the caller supplies.
\<close>

theorem journey_date_is_clock_reading:
  "create_booking ''2024-12-01T09:30:00'' empty_store ''u1'' ''bus-1'' ''A1''
       ''Uttara'' ''Farmgate'' 50 =
     ((Some \<lparr>Booking_id = 0, Booking_user_id = ''u1'', Booking_bus_id = ''bus-1'',
             Booking_seat_number = ''A1'', Booking_source = ''Uttara'',
             Booking_destination = ''Farmgate'',
             Booking_booking_date = ''2024-12-01T09:30:00'', Booking_price = 50,
             Booking_status = ''CONFIRMED''\<rparr>, None),
      empty_store
        \<lparr>bookings :=
           [\<lparr>row_user_id = ''u1'', row_bus_id = ''bus-1'', row_seat_number = ''A1'',
             row_source = ''Uttara'', row_destination = ''Farmgate'',
             row_date = ''2024-12-01T09:30:00'', row_price = 50,
             row_status = ''CONFIRMED'', row_id = 0\<rparr>],
         next_id := 1\<rparr>) \<and>
   map_option Booking_booking_date
      (fst (fst (create_booking ''2024-12-02T18:45:00'' empty_store ''u1'' ''bus-1'' ''A1''
                  ''Uttara'' ''Farmgate'' 50))) = Some ''2024-12-02T18:45:00'' \<and>
   map_option Booking_booking_date
      (fst (fst (create_booking ''2024-12-01T09:30:00'' empty_store ''u1'' ''bus-1'' ''A1''
                  ''Uttara'' ''Farmgate'' 50))) \<noteq>
   map_option Booking_booking_date
      (fst (fst (create_booking ''2024-12-02T18:45:00'' empty_store ''u1'' ''bus-1'' ''A1''
                  ''Uttara'' ''Farmgate'' 50)))"
  by (simp add: booking_eval)

text \<open>
  C3, amended: a successful \<open>create_booking(user, bus, seat, source, destination, price)\<close>
  returns a booking with status CONFIRMED whose journey date is the reading of the clock
  during the call and whose price, user, bus, seat and stops are the ones supplied; no
  error message comes with it, and the booking is the row appended to the ledger.
\<close>

theorem successful_booking_fields:
  "create_booking now w user_id bus_id seat_number source destination price =
     ((Some b, err), w') \<Longrightarrow>
   Booking_status b = BOOKING_STATUS_CONFIRMED \<and> Booking_booking_date b = now \<and>
   Booking_price b = price \<and> Booking_user_id b = user_id \<and> Booking_bus_id b = bus_id \<and>
   Booking_seat_number b = seat_number \<and> Booking_source b = source \<and>
   Booking_destination b = destination \<and> err = None \<and>
   (\<exists>r. bookings w' = bookings w @ [r] \<and> Booking_from_dict r = b)"
proof -
  assume a: "create_booking now w user_id bus_id seat_number source destination price =
     ((Some b, err), w')"
  let ?d = "\<lparr>row_user_id = user_id, row_bus_id = bus_id, row_seat_number = seat_number,
         row_source = source, row_destination = destination, row_date = now,
         row_price = price, row_status = BOOKING_STATUS_CONFIRMED\<rparr>"
  obtain res w1 where s: "service_create_booking w ?d = (res, w1)"
    by (cases "service_create_booking w ?d")
  from a s obtain r where r: "res = Inr (Some r)" "b = Booking_from_dict r" "err = None" "w' = w1"
    by (auto simp: create_booking_def Let_def split: sum.splits option.splits)
  from s r service_create_booking_success[of w ?d r w1]
  show ?thesis by (auto simp: Booking_from_dict_def)
qed

text \<open>A booking of seat A1 at ten o'clock on 15 December 2024.\<close>

theorem successful_booking_fields_witness:
  "create_booking ''2024-12-15T10:00:00'' fleet_store ''u1'' ''bus-1'' ''A1''
       ''Uttara'' ''Farmgate'' 50 =
     ((Some \<lparr>Booking_id = 0, Booking_user_id = ''u1'', Booking_bus_id = ''bus-1'',
             Booking_seat_number = ''A1'', Booking_source = ''Uttara'',
             Booking_destination = ''Farmgate'',
             Booking_booking_date = ''2024-12-15T10:00:00'', Booking_price = 50,
             Booking_status = ''CONFIRMED''\<rparr>, None),
      fleet_store
        \<lparr>bookings :=
           [\<lparr>row_user_id = ''u1'', row_bus_id = ''bus-1'', row_seat_number = ''A1'',
             row_source = ''Uttara'', row_destination = ''Farmgate'',
             row_date = ''2024-12-15T10:00:00'', row_price = 50,
             row_status = ''CONFIRMED'', row_id = 0\<rparr>],
         next_id := 1\<rparr>) \<and>
   Booking_status
     \<lparr>Booking_id = 0, Booking_user_id = ''u1'', Booking_bus_id = ''bus-1'',
      Booking_seat_number = ''A1'', Booking_source = ''Uttara'',
      Booking_destination = ''Farmgate'',
      Booking_booking_date = ''2024-12-15T10:00:00'', Booking_price = 50,
      Booking_status = ''CONFIRMED''\<rparr> = BOOKING_STATUS_CONFIRMED"
proof -
  have call: "create_booking ''2024-12-15T10:00:00'' fleet_store ''u1'' ''bus-1'' ''A1''
       ''Uttara'' ''Farmgate'' 50 =
     ((Some \<lparr>Booking_id = 0, Booking_user_id = ''u1'', Booking_bus_id = ''bus-1'',
             Booking_seat_number = ''A1'', Booking_source = ''Uttara'',
             Booking_destination = ''Farmgate'',
             Booking_booking_date = ''2024-12-15T10:00:00'', Booking_price = 50,
             Booking_status = ''CONFIRMED''\<rparr>, None),
      fleet_store
        \<lparr>bookings :=
           [\<lparr>row_user_id = ''u1'', row_bus_id = ''bus-1'', row_seat_number = ''A1'',
             row_source = ''Uttara'', row_destination = ''Farmgate'',
             row_date = ''2024-12-15T10:00:00'', row_price = 50,
             row_status = ''CONFIRMED'', row_id = 0\<rparr>],
         next_id := 1\<rparr>)"
    by (simp add: booking_eval fleet_store_def)
  from successful_booking_fields [OF call] call show ?thesis by blast
qed

subsection \<open>Seat layout\<close>

text \<open>
  C5: for every store, bus, date and clock the seat layout has 45 entries, labelled A1 to
  A4, B1 to B4, and so on to J1 to J4, then K1 to K5, in this order; an entry is occupied
  exactly when its label is among the occupied seats of the bus on that date; and the
  entries of the last row are exactly the five K seats.
\<close>

theorem seat_layout_fixed:
  "map number (get_seat_layout now w bus_id date_str) =
     [''A1'', ''A2'', ''A3'', ''A4'', ''B1'', ''B2'', ''B3'', ''B4'',
      ''C1'', ''C2'', ''C3'', ''C4'', ''D1'', ''D2'', ''D3'', ''D4'',
      ''E1'', ''E2'', ''E3'', ''E4'', ''F1'', ''F2'', ''F3'', ''F4'',
      ''G1'', ''G2'', ''G3'', ''G4'', ''H1'', ''H2'', ''H3'', ''H4'',
      ''I1'', ''I2'', ''I3'', ''I4'', ''J1'', ''J2'', ''J3'', ''J4'',
      ''K1'', ''K2'', ''K3'', ''K4'', ''K5''] \<and>
   length (get_seat_layout now w bus_id date_str) = 45 \<and>
   map isOccupied (get_seat_layout now w bus_id date_str) =
     map (\<lambda>e. number e \<in> set (get_occupied_seats now w bus_id date_str))
       (get_seat_layout now w bus_id date_str) \<and>
   map isLastRow (get_seat_layout now w bus_id date_str) =
     replicate 40 False @ replicate 5 True \<and>
   map number (filter isLastRow (get_seat_layout now w bus_id date_str)) =
     [''K1'', ''K2'', ''K3'', ''K4'', ''K5'']"
  by (simp add: get_seat_layout_def Let_def SEAT_ROWS_def LAST_ROW_def SEATS_PER_ROW_def
        LAST_ROW_SEATS_def str.simps digits_def upt_rec numeral_eq_Suc)

text \<open>After seat B3 is booked, B3 is the one occupied entry of the day's layout.\<close>

theorem seat_layout_fixed_witness:
  "length (get_seat_layout ''2024-12-15T12:00:00''
      (snd (create_booking ''2024-12-15T10:00:00'' fleet_store ''u1'' ''bus-1'' ''B3''
              ''Uttara'' ''Farmgate'' 50))
      ''bus-1'' None) = 45 \<and>
   map number (filter isOccupied (get_seat_layout ''2024-12-15T12:00:00''
      (snd (create_booking ''2024-12-15T10:00:00'' fleet_store ''u1'' ''bus-1'' ''B3''
              ''Uttara'' ''Farmgate'' 50))
      ''bus-1'' None)) = [''B3'']"
  using seat_layout_fixed
    [of "''2024-12-15T12:00:00''"
        "snd (create_booking ''2024-12-15T10:00:00'' fleet_store ''u1'' ''bus-1'' ''B3''
              ''Uttara'' ''Farmgate'' 50)" "''bus-1''" None]
  by (simp add: booking_eval fleet_store_def get_seat_layout_def SEAT_ROWS_def LAST_ROW_def
        SEATS_PER_ROW_def LAST_ROW_SEATS_def str.simps digits_def upt_rec numeral_eq_Suc
        get_occupied_seats_def get_bus_bookings_for_date_def)

subsection \<open>Batch size limit\<close>

text \<open>
  C6: a batch of more than five seat labels is rejected before any seat is attempted:
  the list of bookings returned is empty, the only message is the one about the limit,
  and the store is the one the call started from.
\<close>

theorem batch_over_limit_rejected:
  "length seat_numbers > MAX_SEATS_PER_BOOKING \<Longrightarrow>
   create_multiple_bookings clock w user_id bus_id seat_numbers source destination
       price_per_seat
     = (([], [''Cannot book more than 5 seats at once.'']), w)"
  by (simp add: create_multiple_bookings_def MAX_SEATS_PER_BOOKING_def str.simps digits_def)

text \<open>Six seats on the example bus.\<close>

theorem batch_over_limit_rejected_witness:
  "length [''A1'', ''A2'', ''A3'', ''A4'', ''B1'', ''B2''] > MAX_SEATS_PER_BOOKING \<and>
   create_multiple_bookings (\<lambda>i. ''2024-12-15T10:00:00'') fleet_store
       ''u1'' ''bus-1'' [''A1'', ''A2'', ''A3'', ''A4'', ''B1'', ''B2''] ''Uttara'' ''Farmgate'' 50
     = (([], [''Cannot book more than 5 seats at once.'']), fleet_store)"
  using batch_over_limit_rejected
    [of "[''A1'', ''A2'', ''A3'', ''A4'', ''B1'', ''B2'']" "\<lambda>i. ''2024-12-15T10:00:00''"
        fleet_store "''u1''" "''bus-1''" "''Uttara''" "''Farmgate''" 50]
  by (simp add: MAX_SEATS_PER_BOOKING_def)

subsection \<open>Cancelling and deleting another user's booking\<close>

text \<open>
  C8: when no booking with the given identifier belongs to the given user (it belongs to
  somebody else, or does not exist), cancelling and deleting are both refused with the one
  message "Booking not found or access denied.", and the store, so every booking's status,
  is unchanged.
\<close>

theorem foreign_booking_denied:
  "\<forall>r \<in> set (bookings w). row_id r = booking_id \<longrightarrow> row_user_id r \<noteq> user_id \<Longrightarrow>
   cancel_booking w booking_id user_id =
     ((False, Some ''Booking not found or access denied.''), w) \<and>
   delete_booking w booking_id user_id =
     ((False, Some ''Booking not found or access denied.''), w)"
  using not_owner_not_listed[of w booking_id user_id]
  by (simp add: cancel_booking_def delete_booking_def Let_def)

text \<open>User u2 cannot cancel or delete booking 0 of user u1, gets the same answer for
  booking 7, which does not exist, and the owner u1 can cancel booking 0.\<close>

theorem foreign_booking_denied_witness:
  "cancel_booking
     (snd (create_booking ''2024-12-15T10:00:00'' empty_store ''u1'' ''bus-1'' ''A1''
             ''Uttara'' ''Farmgate'' 50)) 0 ''u2'' =
     ((False, Some ''Booking not found or access denied.''),
      snd (create_booking ''2024-12-15T10:00:00'' empty_store ''u1'' ''bus-1'' ''A1''
             ''Uttara'' ''Farmgate'' 50)) \<and>
   delete_booking
     (snd (create_booking ''2024-12-15T10:00:00'' empty_store ''u1'' ''bus-1'' ''A1''
             ''Uttara'' ''Farmgate'' 50)) 0 ''u2'' =
     ((False, Some ''Booking not found or access denied.''),
      snd (create_booking ''2024-12-15T10:00:00'' empty_store ''u1'' ''bus-1'' ''A1''
             ''Uttara'' ''Farmgate'' 50)) \<and>
   fst (cancel_booking
     (snd (create_booking ''2024-12-15T10:00:00'' empty_store ''u1'' ''bus-1'' ''A1''
             ''Uttara'' ''Farmgate'' 50)) 7 ''u2'') =
     (False, Some ''Booking not found or access denied.'') \<and>
   map (\<lambda>r. (row_id r, row_user_id r, row_status r))
     (bookings (snd (create_booking ''2024-12-15T10:00:00'' empty_store ''u1'' ''bus-1'' ''A1''
             ''Uttara'' ''Farmgate'' 50))) = [(0, ''u1'', ''CONFIRMED'')] \<and>
   fst (cancel_booking
     (snd (create_booking ''2024-12-15T10:00:00'' empty_store ''u1'' ''bus-1'' ''A1''
             ''Uttara'' ''Farmgate'' 50)) 0 ''u1'') = (True, None)"
proof -
  let ?w = "snd (create_booking ''2024-12-15T10:00:00'' empty_store ''u1'' ''bus-1'' ''A1''
             ''Uttara'' ''Farmgate'' 50)"
  have rows: "map (\<lambda>r. (row_id r, row_user_id r, row_status r)) (bookings ?w) =
      [(0, ''u1'', ''CONFIRMED'')]"
    by (simp add: booking_eval)
  have foreign0: "\<forall>r \<in> set (bookings ?w). row_id r = 0 \<longrightarrow> row_user_id r \<noteq> ''u2''"
    by (simp add: booking_eval)
  have foreign7: "\<forall>r \<in> set (bookings ?w). row_id r = 7 \<longrightarrow> row_user_id r \<noteq> ''u2''"
    by (simp add: booking_eval)
  have own: "fst (cancel_booking ?w 0 ''u1'') = (True, None)"
    by (simp add: booking_eval cancel_booking_def get_user_bookings_def
          get_bookings_by_user_def service_cancel_booking_def)
  from foreign_booking_denied [OF foreign0] foreign_booking_denied [OF foreign7] rows own
  show ?thesis by simp
qed

subsection \<open>Active buses\<close>

text \<open>
  C9, as stated, fails in its second half: a bus under maintenance is not found by the
  search, and a seat on it is booked all the same.
\<close>

theorem inactive_bus_is_booked:
  "map Bus_status (buses workshop_store) = [BUS_STATUS_MAINTENANCE] \<and>
   BUS_STATUS_MAINTENANCE \<noteq> BUS_STATUS_ACTIVE \<and>
   search_buses workshop_store ''Uttara'' ''Farmgate'' = [] \<and>
   create_booking ''2024-12-15T10:00:00'' workshop_store ''u1'' ''bus-1'' ''A1''
       ''Uttara'' ''Farmgate'' 50 =
     ((Some \<lparr>Booking_id = 0, Booking_user_id = ''u1'', Booking_bus_id = ''bus-1'',
             Booking_seat_number = ''A1'', Booking_source = ''Uttara'',
             Booking_destination = ''Farmgate'',
             Booking_booking_date = ''2024-12-15T10:00:00'', Booking_price = 50,
             Booking_status = ''CONFIRMED''\<rparr>, None),
      workshop_store
        \<lparr>bookings :=
           [\<lparr>row_user_id = ''u1'', row_bus_id = ''bus-1'', row_seat_number = ''A1'',
             row_source = ''Uttara'', row_destination = ''Farmgate'',
             row_date = ''2024-12-15T10:00:00'', row_price = 50,
             row_status = ''CONFIRMED'', row_id = 0\<rparr>],
         next_id := 1\<rparr>)"
  by (simp add: booking_eval workshop_store_def red_express_def search_buses_def
        get_active_buses_def get_all_buses_def isActive_def BUS_STATUS_MAINTENANCE_def
        BUS_STATUS_ACTIVE_def)

text \<open>
  C9, amended: \<open>search_buses\<close> returns only buses of the fleet whose status is ACTIVE and
  on which source to destination is a valid trip, and all of them when the store answers.
  \<open>create_booking\<close> does not read the fleet: what it returns is the same whatever buses
  the store holds, whatever their status.
\<close>

theorem only_active_buses_searchable:
  "set (search_buses w source destination) \<subseteq>
     {bus \<in> set (buses w). Bus_status bus = BUS_STATUS_ACTIVE \<and>
                          is_valid_trip bus source destination} \<and>
   (fault w = None \<longrightarrow>
      search_buses w source destination =
        filter (\<lambda>bus. Bus_status bus = BUS_STATUS_ACTIVE \<and>
                       is_valid_trip bus source destination) (buses w)) \<and>
   fst (create_booking now (w\<lparr>buses := fleet\<rparr>) user_id bus_id seat_number source destination
          price) =
     fst (create_booking now w user_id bus_id seat_number source destination price)"
proof (intro conjI)
  show "set (search_buses w source destination) \<subseteq>
     {bus \<in> set (buses w). Bus_status bus = BUS_STATUS_ACTIVE \<and>
                          is_valid_trip bus source destination}"
    by (auto simp: search_buses_def get_active_buses_def get_all_buses_def isActive_def
             split: option.splits)
next
  show "fault w = None \<longrightarrow>
      search_buses w source destination =
        filter (\<lambda>bus. Bus_status bus = BUS_STATUS_ACTIVE \<and>
                       is_valid_trip bus source destination) (buses w)"
    by (auto simp: search_buses_def get_active_buses_def get_all_buses_def isActive_def
             conj_commute)
next
  show "fst (create_booking now (w\<lparr>buses := fleet\<rparr>) user_id bus_id seat_number source
              destination price) =
     fst (create_booking now w user_id bus_id seat_number source destination price)"
    by (simp add: create_booking_def service_create_booking_def insert_booking_def Let_def
          split: option.splits)
qed

text \<open>The example bus is found when ACTIVE, in the direction of its route only, and not
  when under maintenance; the booking is the same in both stores.\<close>

theorem only_active_buses_searchable_witness:
  "search_buses fleet_store ''Uttara'' ''Farmgate'' = [red_express] \<and>
   search_buses fleet_store ''Farmgate'' ''Uttara'' = [] \<and>
   search_buses workshop_store ''Uttara'' ''Farmgate'' = [] \<and>
   fst (create_booking ''2024-12-15T10:00:00'' workshop_store ''u1'' ''bus-1'' ''A1''
          ''Uttara'' ''Farmgate'' 50) =
   fst (create_booking ''2024-12-15T10:00:00'' fleet_store ''u1'' ''bus-1'' ''A1''
          ''Uttara'' ''Farmgate'' 50)"
proof -
  have same: "workshop_store = fleet_store\<lparr>buses := buses workshop_store\<rparr>"
    by (simp add: fleet_store_def workshop_store_def empty_store_def)
  have "fst (create_booking ''2024-12-15T10:00:00'' (fleet_store\<lparr>buses := buses workshop_store\<rparr>)
          ''u1'' ''bus-1'' ''A1'' ''Uttara'' ''Farmgate'' 50) =
        fst (create_booking ''2024-12-15T10:00:00'' fleet_store ''u1'' ''bus-1'' ''A1''
          ''Uttara'' ''Farmgate'' 50)"
    using only_active_buses_searchable
      [of fleet_store "''Uttara''" "''Farmgate''" "''2024-12-15T10:00:00''"
          "buses workshop_store" "''u1''" "''bus-1''" "''A1''" 50]
    by blast
  with same have booked: "fst (create_booking ''2024-12-15T10:00:00'' workshop_store ''u1''
          ''bus-1'' ''A1'' ''Uttara'' ''Farmgate'' 50) =
        fst (create_booking ''2024-12-15T10:00:00'' fleet_store ''u1'' ''bus-1'' ''A1''
          ''Uttara'' ''Farmgate'' 50)"
    by simp
  have "search_buses fleet_store ''Uttara'' ''Farmgate'' = [red_express]"
       "search_buses fleet_store ''Farmgate'' ''Uttara'' = []"
       "search_buses workshop_store ''Uttara'' ''Farmgate'' = []"
    by (simp_all add: fleet_store_def workshop_store_def empty_store_def red_express_def
          search_buses_def get_active_buses_def get_all_buses_def isActive_def
          is_valid_trip_def BUS_STATUS_MAINTENANCE_def BUS_STATUS_ACTIVE_def)
  with booked show ?thesis by simp
qed

subsection \<open>Portal access\<close>

text \<open>
  C10: for a user the service has authenticated, a portal type that lower-cases to none of
  user, driver and admin admits the user whatever the role; for each of the three known
  portal types the user is admitted exactly when the role is the portal's role, and is
  refused with the access-denied message otherwise.
\<close>

theorem unknown_portal_skips_role_check:
  "service_login sign_in w email password = Inr (Some user) \<Longrightarrow>
   (lower portal_type \<notin> {''user'', ''driver'', ''admin''} \<longrightarrow>
      login sign_in w email password portal_type = (Some user, None)) \<and>
   (lower portal_type = ''user'' \<longrightarrow>
      login sign_in w email password portal_type =
        (if User_role user = USER_ROLE then (Some user, None)
         else (None, Some (''Access denied. This portal is for '' @ portal_type @ ''s only.'')))) \<and>
   (lower portal_type = ''driver'' \<longrightarrow>
      login sign_in w email password portal_type =
        (if User_role user = DRIVER_ROLE then (Some user, None)
         else (None, Some (''Access denied. This portal is for '' @ portal_type @ ''s only.'')))) \<and>
   (lower portal_type = ''admin'' \<longrightarrow>
      login sign_in w email password portal_type =
        (if User_role user = ADMIN_ROLE then (Some user, None)
         else (None, Some (''Access denied. This portal is for '' @ portal_type @ ''s only.''))))"
  by (simp add: login_def get_expected_role_def USER_ROLE_def DRIVER_ROLE_def ADMIN_ROLE_def)

text \<open>A driver is admitted to the unknown portal "Staff" and to "Driver", and refused at
  "admin".\<close>

theorem unknown_portal_skips_role_check_witness:
  "service_login accepts_dana staff_store ''dana@example.com'' ''secret'' =
     Inr (Some driver_dana) \<and>
   lower ''Staff'' \<notin> {''user'', ''driver'', ''admin''} \<and>
   login accepts_dana staff_store ''dana@example.com'' ''secret'' ''Staff'' =
     (Some driver_dana, None) \<and>
   login accepts_dana staff_store ''dana@example.com'' ''secret'' ''Driver'' =
     (Some driver_dana, None) \<and>
   login accepts_dana staff_store ''dana@example.com'' ''secret'' ''admin'' =
     (None, Some ''Access denied. This portal is for admins only.'')"
proof -
  have ok: "service_login accepts_dana staff_store ''dana@example.com'' ''secret'' =
     Inr (Some driver_dana)"
    by (simp add: service_login_def accepts_dana_def staff_store_def empty_store_def
          driver_dana_def)
  have l: "lower ''Staff'' \<notin> {''user'', ''driver'', ''admin''}" "lower ''Driver'' = ''driver''"
     "lower ''admin'' = ''admin''"
    by (simp_all add: lower_def lower_char_def)
  have r: "User_role driver_dana = DRIVER_ROLE" "User_role driver_dana \<noteq> ADMIN_ROLE"
    by (simp_all add: driver_dana_def DRIVER_ROLE_def ADMIN_ROLE_def)
  from unknown_portal_skips_role_check [OF ok, of "''Staff''"]
       unknown_portal_skips_role_check [OF ok, of "''Driver''"]
       unknown_portal_skips_role_check [OF ok, of "''admin''"] ok l r
  show ?thesis by simp
qed

subsection \<open>The last second of the day\<close>

text \<open>
  C1 fails on the code: the conflict query takes the bookings dated before 23:59:59 of the
  day, so a booking made within the last second of a day is never seen by it. Two
  successive requests for seat A1 of one bus at 23:59:59.1 and 23:59:59.6 are both
  admitted, and the ledger then holds two CONFIRMED bookings of that bus, seat and day.
\<close>

theorem last_second_double_booking:
  "no_double_booking empty_store \<and>
   fst (create_booking (last_second_clock 0) empty_store ''u1'' ''bus-1'' ''A1''
          ''Uttara'' ''Farmgate'' 50) =
     (Some \<lparr>Booking_id = 0, Booking_user_id = ''u1'', Booking_bus_id = ''bus-1'',
            Booking_seat_number = ''A1'', Booking_source = ''Uttara'',
            Booking_destination = ''Farmgate'',
            Booking_booking_date = ''2024-12-15T23:59:59.100000'', Booking_price = 50,
            Booking_status = ''CONFIRMED''\<rparr>, None) \<and>
   fst (create_booking (last_second_clock 1)
          (snd (create_booking (last_second_clock 0) empty_store ''u1'' ''bus-1'' ''A1''
                  ''Uttara'' ''Farmgate'' 50))
          ''u2'' ''bus-1'' ''A1'' ''Uttara'' ''Farmgate'' 50) =
     (Some \<lparr>Booking_id = 1, Booking_user_id = ''u2'', Booking_bus_id = ''bus-1'',
            Booking_seat_number = ''A1'', Booking_source = ''Uttara'',
            Booking_destination = ''Farmgate'',
            Booking_booking_date = ''2024-12-15T23:59:59.600000'', Booking_price = 50,
            Booking_status = ''CONFIRMED''\<rparr>, None) \<and>
   confirmed_slots
     (snd (create_booking (last_second_clock 1)
             (snd (create_booking (last_second_clock 0) empty_store ''u1'' ''bus-1'' ''A1''
                     ''Uttara'' ''Farmgate'' 50))
             ''u2'' ''bus-1'' ''A1'' ''Uttara'' ''Farmgate'' 50)) =
     [(''bus-1'', ''A1'', ''2024-12-15''), (''bus-1'', ''A1'', ''2024-12-15'')] \<and>
   \<not> no_double_booking
     (snd (create_booking (last_second_clock 1)
             (snd (create_booking (last_second_clock 0) empty_store ''u1'' ''bus-1'' ''A1''
                     ''Uttara'' ''Farmgate'' 50))
             ''u2'' ''bus-1'' ''A1'' ''Uttara'' ''Farmgate'' 50))"
  by (simp add: booking_eval no_double_booking_def confirmed_slots_def last_second_clock_def)

text \<open>
  C4 fails on the code for the same reason: seat A1, booked at 23:59:59.1 and CONFIRMED, is
  not among the occupied seats of its bus for 15 December 2024, though its journey date
  falls on that calendar day.
\<close>

theorem last_second_booking_not_occupied:
  "get_occupied_seats ''2024-12-15T23:59:59.900000''
     (snd (create_booking (last_second_clock 0) empty_store ''u1'' ''bus-1'' ''A1''
             ''Uttara'' ''Farmgate'' 50))
     ''bus-1'' (Some ''2024-12-15T08:00:00'') = [] \<and>
   get_occupied_seats ''2024-12-15T23:59:59.900000''
     (snd (create_booking (last_second_clock 0) empty_store ''u1'' ''bus-1'' ''A1''
             ''Uttara'' ''Farmgate'' 50))
     ''bus-1'' None = [] \<and>
   occupied_seats_by_day
     (snd (create_booking (last_second_clock 0) empty_store ''u1'' ''bus-1'' ''A1''
             ''Uttara'' ''Farmgate'' 50))
     ''bus-1'' ''2024-12-15T08:00:00'' = [''A1'']"
  by (simp add: booking_eval get_occupied_seats_def get_bus_bookings_for_date_def
        occupied_seats_by_day_def last_second_clock_def)

text \<open>
  C7 fails on the code in its example, for the same reason: the batch A1, A1 on an empty
  bus, its two seats attempted at 23:59:59.1 and 23:59:59.6, yields two bookings and no
  failure.
\<close>

theorem last_second_batch_books_seat_twice:
  "create_multiple_bookings last_second_clock empty_store ''u1'' ''bus-1'' [''A1'', ''A1'']
       ''Uttara'' ''Farmgate'' 50 =
     (([\<lparr>Booking_id = 0, Booking_user_id = ''u1'', Booking_bus_id = ''bus-1'',
         Booking_seat_number = ''A1'', Booking_source = ''Uttara'',
         Booking_destination = ''Farmgate'',
         Booking_booking_date = ''2024-12-15T23:59:59.100000'', Booking_price = 50,
         Booking_status = ''CONFIRMED''\<rparr>,
        \<lparr>Booking_id = 1, Booking_user_id = ''u1'', Booking_bus_id = ''bus-1'',
         Booking_seat_number = ''A1'', Booking_source = ''Uttara'',
         Booking_destination = ''Farmgate'',
         Booking_booking_date = ''2024-12-15T23:59:59.600000'', Booking_price = 50,
         Booking_status = ''CONFIRMED''\<rparr>], []),
      empty_store
        \<lparr>bookings :=
           [\<lparr>row_user_id = ''u1'', row_bus_id = ''bus-1'', row_seat_number = ''A1'',
             row_source = ''Uttara'', row_destination = ''Farmgate'',
             row_date = ''2024-12-15T23:59:59.100000'', row_price = 50,
             row_status = ''CONFIRMED'', row_id = 0\<rparr>,
            \<lparr>row_user_id = ''u1'', row_bus_id = ''bus-1'', row_seat_number = ''A1'',
             row_source = ''Uttara'', row_destination = ''Farmgate'',
             row_date = ''2024-12-15T23:59:59.600000'', row_price = 50,
             row_status = ''CONFIRMED'', row_id = 1\<rparr>],
         next_id := 2\<rparr>)"
  by (simp add: booking_eval create_multiple_bookings_def MAX_SEATS_PER_BOOKING_def
        last_second_clock_def)

text \<open>At ten o'clock the same batch yields one booking and one failure.\<close>

lemma midday_batch_books_seat_once:
  "create_multiple_bookings (\<lambda>i. ''2024-12-15T10:00:00'') empty_store ''u1'' ''bus-1''
       [''A1'', ''A1''] ''Uttara'' ''Farmgate'' 50 =
     (([\<lparr>Booking_id = 0, Booking_user_id = ''u1'', Booking_bus_id = ''bus-1'',
         Booking_seat_number = ''A1'', Booking_source = ''Uttara'',
         Booking_destination = ''Farmgate'',
         Booking_booking_date = ''2024-12-15T10:00:00'', Booking_price = 50,
         Booking_status = ''CONFIRMED''\<rparr>], [''Seat A1: Seat A1 is already booked.'']),
      empty_store
        \<lparr>bookings :=
           [\<lparr>row_user_id = ''u1'', row_bus_id = ''bus-1'', row_seat_number = ''A1'',
             row_source = ''Uttara'', row_destination = ''Farmgate'',
             row_date = ''2024-12-15T10:00:00'', row_price = 50,
             row_status = ''CONFIRMED'', row_id = 0\<rparr>],
         next_id := 1\<rparr>)"
  by (simp add: booking_eval create_multiple_bookings_def MAX_SEATS_PER_BOOKING_def)

lemma create_booking_outcome:
  "create_booking now w user_id bus_id seat_number source destination price = ((b, err), w') \<Longrightarrow>
   (b = None \<and> err \<noteq> None \<and> w' = w) \<or>
   (\<exists>r. b = Some (Booking_from_dict r) \<and> err = None \<and> bookings w' = bookings w @ [r])"
  by (auto simp: create_booking_def service_create_booking_def insert_booking_def Let_def
           split: option.splits if_splits)

text \<open>The batch in general: every seat ends in exactly one of the two lists, every
  booking returned is a row appended to the ledger, and no row is taken back.\<close>

lemma book_each_keeps_every_success:
  "book_each clock i w user_id bus_id seat_numbers source destination price succ errs =
     ((succ', errs'), w') \<Longrightarrow>
   length succ' + length errs' = length succ + length errs + length seat_numbers \<and>
   (\<exists>new. bookings w' = bookings w @ new \<and> succ' = succ @ map Booking_from_dict new) \<and>
   (\<exists>more. errs' = errs @ more)"
proof (induction seat_numbers arbitrary: i w succ errs)
  case Nil
  then show ?case by simp
next
  case (Cons seat rest)
  obtain b err w1 where c:
    "create_booking (clock i) w user_id bus_id seat source destination price = ((b, err), w1)"
    by (metis surj_pair)
  show ?case
  proof (cases b)
    case None
    with c create_booking_outcome[OF c] have w1: "w1 = w" by auto
    let ?e = "errs @ [''Seat '' @ seat @ '': '' @ (case err of None \<Rightarrow> ''None'' | Some e \<Rightarrow> e)]"
    from Cons.prems c None
    have "book_each clock (Suc i) w1 user_id bus_id rest source destination price succ ?e =
            ((succ', errs'), w')"
      by simp
    from Cons.IH[OF this] w1 show ?thesis by auto
  next
    case (Some bk)
    with c create_booking_outcome[OF c] obtain r where
      r: "bk = Booking_from_dict r" "bookings w1 = bookings w @ [r]" by auto
    from Cons.prems c Some
    have "book_each clock (Suc i) w1 user_id bus_id rest source destination price
            (succ @ [bk]) errs = ((succ', errs'), w')"
      by simp
    from Cons.IH[OF this] r show ?thesis by auto
  qed
qed

subsection \<open>Away from the last second\<close>

text \<open>
  The date filter of the two queries, on a timestamp that precedes the last second of its
  day, is the comparison of calendar days.
\<close>

lemma same_length_less:
  "length xs = length ys \<Longrightarrow> xs \<noteq> ys \<Longrightarrow> (xs @ u < ys @ v) = (xs < (ys :: 'a :: linorder list))"
  by (induction xs ys rule: list_induct2) auto

lemma prefix_less_append: "v \<noteq> [] \<Longrightarrow> (xs :: 'a :: linorder list) < xs @ v"
  by (induction xs) (auto simp: neq_Nil_conv)

lemma append_less_cancel: "((xs :: 'a :: linorder list) @ u < xs @ v) = (u < v)"
  by (induction xs) auto

lemma in_window_iff:
  assumes d: "before_last_second d" and p: "length p = 10"
  shows "(p \<le> d \<and> d < p @ ''T23:59:59'') = (split_T_0 d = p)"
proof -
  let ?q = "split_T_0 d" and ?t = "time_of_day d"
  from d have q: "length ?q = 10" and dq: "d = ?q @ CHR ''T'' # ?t" and t: "?t < ''23:59:59''"
    by (simp_all add: before_last_second_def)
  show ?thesis
  proof (cases "?q = p")
    case True
    have "p < p @ CHR ''T'' # ?t" by (rule prefix_less_append) simp
    moreover have "p @ CHR ''T'' # ?t < p @ ''T23:59:59''"
      using t by (simp add: append_less_cancel)
    ultimately show ?thesis using True dq by (metis order.strict_implies_order)
  next
    case False
    have "\<not> (p \<le> d \<and> d < p @ ''T23:59:59'')"
    proof
      assume h: "p \<le> d \<and> d < p @ ''T23:59:59''"
      have "length d = length (?q @ CHR ''T'' # ?t)" by (rule arg_cong[OF dq])
      with q p have "p \<noteq> d" by auto
      with h have "p < d" by (auto simp: less_le)
      then have "p @ [] < ?q @ CHR ''T'' # ?t" by (metis dq append_Nil2)
      with same_length_less[of p ?q "[]" "CHR ''T'' # ?t"] p q False have 1: "p < ?q" by auto
      from h have "?q @ CHR ''T'' # ?t < p @ ''T23:59:59''" by (metis dq)
      with same_length_less[of ?q p "CHR ''T'' # ?t" "''T23:59:59''"] p q False have 2: "?q < p" by auto
      from 1 2 show False by simp
    qed
    with False show ?thesis by simp
  qed
qed

text \<open>On a settled ledger the occupancy query returns the seats of the calendar day.\<close>

lemma occupied_outside_last_second:
  assumes up: "fault w = None" and settled: "settled_ledger w"
    and day: "length (split_T_0 date_str) = 10"
  shows "get_occupied_seats now w bus_id (Some date_str) =
           occupied_seats_by_day w bus_id date_str"
proof -
  from day have ne: "date_str \<noteq> []" by (auto simp: split_T_0_def)
  have "filter (\<lambda>r. row_bus_id r = bus_id \<and> row_status r = ''CONFIRMED'' \<and>
                     split_T_0 date_str \<le> row_date r \<and>
                     row_date r < split_T_0 date_str @ ''T23:59:59'') (bookings w) =
        filter (\<lambda>r. row_bus_id r = bus_id \<and> row_status r = BOOKING_STATUS_CONFIRMED \<and>
                     split_T_0 (row_date r) = split_T_0 date_str) (bookings w)"
  proof (rule filter_cong[OF refl])
    fix r assume "r \<in> set (bookings w)"
    with settled have "row_status r \<noteq> BOOKING_STATUS_CONFIRMED \<or> before_last_second (row_date r)"
      by (simp add: settled_ledger_def list_all_iff)
    then show "(row_bus_id r = bus_id \<and> row_status r = ''CONFIRMED'' \<and>
                     split_T_0 date_str \<le> row_date r \<and>
                     row_date r < split_T_0 date_str @ ''T23:59:59'') =
               (row_bus_id r = bus_id \<and> row_status r = BOOKING_STATUS_CONFIRMED \<and>
                     split_T_0 (row_date r) = split_T_0 date_str)"
      using in_window_iff[of "row_date r" "split_T_0 date_str"] day
      by (auto simp: BOOKING_STATUS_CONFIRMED_def)
  qed
  with up ne show ?thesis
    by (simp add: get_occupied_seats_def get_bus_bookings_for_date_def occupied_seats_by_day_def)
qed

text \<open>Each operation keeps a settled ledger free of double bookings, a booking provided
  its clock reading is before the last second of the day.\<close>

lemma create_booking_keeps_ledger:
  assumes inv: "no_double_booking w" and settled: "settled_ledger w"
    and now: "before_last_second now"
  shows "no_double_booking
           (snd (create_booking now w user_id bus_id seat_number source destination price)) \<and>
         settled_ledger
           (snd (create_booking now w user_id bus_id seat_number source destination price))"
proof (cases "fault w")
  case (Some msg)
  with inv settled show ?thesis
    by (simp add: create_booking_def service_create_booking_def)
next
  case None
  let ?existing = "filter (\<lambda>r. row_bus_id r = bus_id \<and> row_seat_number r = seat_number \<and>
           row_status r = ''CONFIRMED'' \<and> split_T_0 now \<le> row_date r \<and>
           row_date r < split_T_0 now @ ''T23:59:59'') (bookings w)"
  show ?thesis
  proof (cases "?existing = []")
    case False
    with None inv settled show ?thesis
      by (simp add: create_booking_def service_create_booking_def Let_def
            BOOKING_STATUS_CONFIRMED_def)
  next
    case True
    have fresh: "(bus_id, seat_number, split_T_0 now) \<notin> set (confirmed_slots w)"
    proof
      assume "(bus_id, seat_number, split_T_0 now) \<in> set (confirmed_slots w)"
      then obtain r where r: "r \<in> set (bookings w)" "row_status r = BOOKING_STATUS_CONFIRMED"
          "row_bus_id r = bus_id" "row_seat_number r = seat_number"
          "split_T_0 (row_date r) = split_T_0 now"
        by (auto simp: confirmed_slots_def)
      with settled have "before_last_second (row_date r)"
        by (auto simp: settled_ledger_def list_all_iff)
      moreover from now have "length (split_T_0 now) = 10"
        by (simp add: before_last_second_def)
      ultimately have "split_T_0 now \<le> row_date r \<and> row_date r < split_T_0 now @ ''T23:59:59''"
        using in_window_iff[of "row_date r" "split_T_0 now"] r(5) by simp
      with r have "r \<in> set ?existing"
        by (simp add: BOOKING_STATUS_CONFIRMED_def)
      with True show False by simp
    qed
    from None True have w': "bookings (snd (create_booking now w user_id bus_id seat_number source destination price)) =
        bookings w @ [\<lparr>row_user_id = user_id, row_bus_id = bus_id, row_seat_number = seat_number,
           row_source = source, row_destination = destination, row_date = now, row_price = price,
           row_status = BOOKING_STATUS_CONFIRMED, row_id = next_id w\<rparr>]"
      by (simp add: create_booking_def service_create_booking_def insert_booking_def Let_def
            BOOKING_STATUS_CONFIRMED_def)
    from w' inv fresh now settled show ?thesis
      by (simp add: no_double_booking_def confirmed_slots_def settled_ledger_def)
  qed
qed

lemma distinct_map_filter_conj:
  "distinct (map f (filter P xs)) \<Longrightarrow> distinct (map f (filter (\<lambda>x. P x \<and> Q x) xs))"
  by (induction xs) (auto split: if_splits)

lemma cancel_booking_keeps_ledger:
  assumes inv: "no_double_booking w" and settled: "settled_ledger w"
  shows "no_double_booking (snd (cancel_booking w booking_id user_id)) \<and>
         settled_ledger (snd (cancel_booking w booking_id user_id))"
proof -
  let ?g = "\<lambda>r. if row_id r = booking_id then r\<lparr>row_status := ''CANCELLED''\<rparr> else r"
  have slots: "map (\<lambda>r. (row_bus_id r, row_seat_number r, split_T_0 (row_date r)))
          (filter (\<lambda>r. row_status r = BOOKING_STATUS_CONFIRMED) (map ?g xs)) =
        map (\<lambda>r. (row_bus_id r, row_seat_number r, split_T_0 (row_date r)))
          (filter (\<lambda>r. row_status r = BOOKING_STATUS_CONFIRMED \<and> row_id r \<noteq> booking_id) xs)"
    for xs :: "booking_row list"
    by (induction xs) (auto simp: BOOKING_STATUS_CONFIRMED_def)
  have keep: "list_all (\<lambda>r. row_status r \<noteq> BOOKING_STATUS_CONFIRMED \<or> before_last_second (row_date r)) xs \<Longrightarrow>
        list_all (\<lambda>r. row_status r \<noteq> BOOKING_STATUS_CONFIRMED \<or> before_last_second (row_date r)) (map ?g xs)"
    for xs :: "booking_row list"
    by (induction xs) (auto simp: BOOKING_STATUS_CONFIRMED_def)
  have "no_double_booking (w\<lparr>bookings := map ?g (bookings w)\<rparr>)"
    using inv distinct_map_filter_conj[of _ "\<lambda>r. row_status r = BOOKING_STATUS_CONFIRMED" "bookings w" "\<lambda>r. row_id r \<noteq> booking_id"]
    by (simp add: no_double_booking_def confirmed_slots_def slots)
  moreover have "settled_ledger (w\<lparr>bookings := map ?g (bookings w)\<rparr>)"
    using settled keep by (simp add: settled_ledger_def)
  ultimately show ?thesis using inv settled
    by (auto simp: cancel_booking_def service_cancel_booking_def Let_def split: option.splits)
qed

lemma delete_booking_keeps_ledger:
  assumes inv: "no_double_booking w" and settled: "settled_ledger w"
  shows "no_double_booking (snd (delete_booking w booking_id user_id)) \<and>
         settled_ledger (snd (delete_booking w booking_id user_id))"
proof -
  let ?xs = "filter (\<lambda>r. row_id r \<noteq> booking_id) (bookings w)"
  have "filter (\<lambda>r. row_status r = BOOKING_STATUS_CONFIRMED) ?xs =
        filter (\<lambda>r. row_status r = BOOKING_STATUS_CONFIRMED \<and> row_id r \<noteq> booking_id) (bookings w)"
    by (simp add: conj_commute)
  then have "no_double_booking (w\<lparr>bookings := ?xs\<rparr>)"
    using inv distinct_map_filter_conj[of _ "\<lambda>r. row_status r = BOOKING_STATUS_CONFIRMED" "bookings w" "\<lambda>r. row_id r \<noteq> booking_id"]
    by (simp add: no_double_booking_def confirmed_slots_def)
  moreover have "settled_ledger (w\<lparr>bookings := ?xs\<rparr>)"
    using settled by (simp add: settled_ledger_def list_all_iff)
  ultimately show ?thesis using inv settled
    by (auto simp: delete_booking_def service_delete_booking_def Let_def split: option.splits)
qed

lemma serve_keeps_ledger:
  "no_double_booking w \<Longrightarrow> settled_ledger w \<Longrightarrow> timely req \<Longrightarrow>
   no_double_booking (serve w req) \<and> settled_ledger (serve w req)"
  by (cases req)
     (simp_all add: create_booking_keeps_ledger cancel_booking_keeps_ledger
        delete_booking_keeps_ledger)

lemma no_double_booking_before_last_second:
  "no_double_booking w \<Longrightarrow> settled_ledger w \<Longrightarrow> list_all timely reqs \<Longrightarrow>
   no_double_booking (foldl serve w reqs) \<and> settled_ledger (foldl serve w reqs)"
proof (induction reqs arbitrary: w)
  case Nil
  then show ?case by simp
next
  case (Cons req reqs)
  from Cons.prems serve_keeps_ledger[of w req]
  have "no_double_booking (serve w req)" "settled_ledger (serve w req)" by simp_all
  with Cons.IH[of "serve w req"] Cons.prems show ?case by simp
qed

text \<open>Served from the empty ledger, timely requests never lead to a double booking.\<close>

lemma timely_requests_never_double_book:
  "list_all timely reqs \<Longrightarrow> no_double_booking (foldl serve empty_store reqs)"
  using no_double_booking_before_last_second[of empty_store reqs]
  by (simp add: no_double_booking_def confirmed_slots_def settled_ledger_def empty_store_def)

end
